theory Spec2Isabelle
  imports Complex_Main
begin

section \<open>The Zenobia client: streaming connection, reconnection and message dispatch\<close>

text \<open>
  A shallow embedding of the class \<open>ZenobiaClient\<close> (reference variant: attempt cap 6,
  delay cap 30000 ms, host chosen by the constructor). The fields of the object are a
  record; the browser objects the methods touch (\<open>window.location\<close>, the sockets'
  \<open>readyState\<close>, the pending timers) are a second record; every call that leaves the
  object (a callback, a socket method, a timer function, the console) is appended to a
  trace, in program order.

  The observers are opaque handles. The model takes an observer call to return normally
  and not to call back into the client. Of \<open>createTransfer\<close> the model has
  the continuation that stores the credentials of a successful response; the HTTP
  exchange itself, and its failure, which leaves the client as it is, are left out.
\<close>

subsection \<open>Values\<close>

type_synonym sock = nat
type_synonym callback = nat

text \<open>
  What \<open>JSON.parse\<close> returns. A number is the rational value of the parsed double; of a
  number the code reads nothing but its truthiness.
\<close>

datatype json =
    JNull
  | JBool bool
  | JNumber rat
  | JString string
  | JArray "json list"
  | JObject "(string \<times> json) list"

text \<open>Lines written to the console; the interpolated values are the arguments.\<close>

datatype console_line =
    Missing_credentials
  | WebSocket_error_for "string option"
  | Message_received "string option" string
  | Reconnect_in nat nat
  | Reconnecting nat
  | Closing_WebSocket "string option"

datatype effect =
    WebSocket_new string
  | WebSocket_close sock "nat option"
  | WebSocket_send sock string
  | setTimeout_call nat nat
  | clearTimeout_call nat
  | StatusCallback callback json
  | ErrorCallback callback json
  | ConnectionCallback callback bool
  | console_error console_line
  | console_log console_line

subsection \<open>State\<close>

record ZenobiaClient =
  socket :: "sock option"
  reconnectTimeout :: "nat option"
  reconnectAttempts :: nat
  maxReconnectAttempts :: nat
  transferId :: "string option"
  signature :: "string option"
  wsBaseUrl :: string
  onStatusCallback :: "callback option"
  onErrorCallback :: "callback option"
  onConnectionCallback :: "callback option"

text \<open>
  The browser: \<open>readyState\<close> of every socket (0 CONNECTING, 1 OPEN, 2 CLOSING, 3 CLOSED),
  the number of sockets constructed so far (socket handles are \<open>0 ..< socket_count\<close>), the
  handles of the timers that are pending, and the last timer handle issued (handles are
  positive, as the platform guarantees).
\<close>

record browser =
  location_protocol :: string
  readyState :: "sock \<Rightarrow> nat"
  socket_count :: nat
  timeouts :: "nat list"
  timer_count :: nat

record world =
  this :: ZenobiaClient
  window :: browser
  trace :: "effect list"

text \<open>
  Platform functions the source calls and the repository does not define:
  \<open>JSON.parse\<close> (\<open>None\<close> when it throws) and whether \<open>new WebSocket(url)\<close> throws.
\<close>

record platform =
  JSON_parse :: "string \<Rightarrow> json option"
  WebSocket_throws :: "string \<Rightarrow> bool"

definition ZenobiaClient_new :: "bool \<Rightarrow> ZenobiaClient" where
  "ZenobiaClient_new isTest =
     \<lparr> socket = None, reconnectTimeout = None, reconnectAttempts = 0,
       maxReconnectAttempts = 6, transferId = None, signature = None,
       wsBaseUrl = (if isTest then ''transfer-status-test.zenobiapay.com''
                    else ''transfer-status.zenobiapay.com''),
       onStatusCallback = None, onErrorCallback = None, onConnectionCallback = None \<rparr>"

subsection \<open>JavaScript truthiness and property access\<close>

fun truthy_string :: "string option \<Rightarrow> bool" where
  "truthy_string None = False"
| "truthy_string (Some s) = (s \<noteq> [])"

text \<open>\<open>None\<close> is \<open>undefined\<close>.\<close>

fun truthy :: "json option \<Rightarrow> bool" where
  "truthy None = False"
| "truthy (Some JNull) = False"
| "truthy (Some (JBool b)) = b"
| "truthy (Some (JNumber q)) = (q \<noteq> 0)"
| "truthy (Some (JString s)) = (s \<noteq> [])"
| "truthy (Some (JArray xs)) = True"
| "truthy (Some (JObject fs)) = True"

text \<open>
  An object is the list of its properties, each key once. \<open>data.key\<close> for one of the keys the source reads (\<open>type\<close>, \<open>transfer\<close>,
  \<open>message\<close>) on a value other than \<open>null\<close>: a field of an object, \<open>undefined\<close> on
  anything else. On \<open>null\<close> the access throws; \<open>onmessage\<close> handles that case itself.
\<close>

fun property :: "json \<Rightarrow> string \<Rightarrow> json option" where
  "property (JObject fs) k = map_of fs k"
| "property v k = None"

subsection \<open>Browser primitives\<close>

definition emit :: "effect \<Rightarrow> world \<Rightarrow> world" where
  "emit e w = w\<lparr>trace := trace w @ [e]\<rparr>"

text \<open>
  \<open>socket.close()\<close> with no argument: a socket that is connecting or open starts closing,
  a socket that is closing or closed is left alone. Its close event comes later.
\<close>

definition socket_close :: "sock \<Rightarrow> world \<Rightarrow> world" where
  "socket_close s w =
     (let b = window w;
          b' = (if readyState b s < 2 then b\<lparr>readyState := (readyState b)(s := 2)\<rparr> else b)
      in emit (WebSocket_close s None) (w\<lparr>window := b'\<rparr>))"

text \<open>
  \<open>window.clearTimeout(h)\<close> and \<open>window.setTimeout(callback, delay)\<close>. The only callback
  the source ever schedules is the one of \<open>attemptReconnect\<close>, so a pending timer is its
  handle alone.
\<close>

definition clearTimeout :: "nat \<Rightarrow> world \<Rightarrow> world" where
  "clearTimeout h w =
     emit (clearTimeout_call h)
       (w\<lparr>window := (window w)\<lparr>timeouts := removeAll h (timeouts (window w))\<rparr>\<rparr>)"

definition setTimeout :: "nat \<Rightarrow> world \<Rightarrow> nat \<times> world" where
  "setTimeout delay w =
     (let b = window w; h = Suc (timer_count b)
      in (h, emit (setTimeout_call h delay)
               (w\<lparr>window := b\<lparr>timeouts := timeouts b @ [h], timer_count := h\<rparr>\<rparr>)))"

text \<open>\<open>new WebSocket(url)\<close>: \<open>None\<close> when the constructor throws, else the new socket.\<close>

definition WebSocket_ctor :: "platform \<Rightarrow> string \<Rightarrow> world \<Rightarrow> sock option \<times> world" where
  "WebSocket_ctor P url w =
     (let w1 = emit (WebSocket_new url) w; b = window w1
      in if WebSocket_throws P url then (None, w1)
         else (Some (socket_count b),
               w1\<lparr>window := b\<lparr>readyState := (readyState b)(socket_count b := 0),
                               socket_count := Suc (socket_count b)\<rparr>\<rparr>))"

subsection \<open>The methods of \<open>ZenobiaClient\<close>\<close>

definition notifyConnectionStatus :: "bool \<Rightarrow> world \<Rightarrow> world" where
  "notifyConnectionStatus is_connected w =
     (case onConnectionCallback (this w) of
        Some cb \<Rightarrow> emit (ConnectionCallback cb is_connected) w
      | None \<Rightarrow> w)"

definition notifyStatus :: "json \<Rightarrow> world \<Rightarrow> world" where
  "notifyStatus status w =
     (case onStatusCallback (this w) of
        Some cb \<Rightarrow> emit (StatusCallback cb status) w
      | None \<Rightarrow> w)"

definition notifyError :: "json \<Rightarrow> world \<Rightarrow> world" where
  "notifyError err w =
     (case onErrorCallback (this w) of
        Some cb \<Rightarrow> emit (ErrorCallback cb err) w
      | None \<Rightarrow> w)"

text \<open>The template literal of \<open>connectWebSocket\<close>; \<open>null\<close> interpolates as its name.\<close>

definition wsUrl :: "string \<Rightarrow> ZenobiaClient \<Rightarrow> string" where
  "wsUrl protocol c =
     protocol @ ''//'' @ wsBaseUrl c @ ''/transfers/''
     @ (case transferId c of Some t \<Rightarrow> t | None \<Rightarrow> ''null'')
     @ ''/ws?token=''
     @ (case signature c of Some g \<Rightarrow> g | None \<Rightarrow> ''null'')"

definition connectWebSocket :: "platform \<Rightarrow> world \<Rightarrow> world" where
  "connectWebSocket P w =
     (let w1 = (case socket (this w) of
                  Some s \<Rightarrow>
                    notifyConnectionStatus False
                      ((socket_close s w)\<lparr>this := (this w)\<lparr>socket := None\<rparr>\<rparr>)
                | None \<Rightarrow> w)
      in if \<not> truthy_string (transferId (this w1)) \<or> \<not> truthy_string (signature (this w1))
         then emit (console_error Missing_credentials) w1
         else (let protocol = (if location_protocol (window w1) = ''https:''
                               then ''wss:'' else ''ws:'');
                   (constructed, w2) = WebSocket_ctor P (wsUrl protocol (this w1)) w1
               in case constructed of
                    Some s \<Rightarrow> w2\<lparr>this := (this w2)\<lparr>socket := Some s\<rparr>\<rparr>
                  | None \<Rightarrow>
                      notifyError (JString ''Failed to establish WebSocket connection'') w2))"

text \<open>
  \<open>attemptReconnect\<close>, with the literal that caps the delay as a parameter: the
  reference variant has 30000, the variant with attempt cap 5 has 5000; the bodies are
  otherwise the same.
\<close>

definition reconnectDelay :: "nat \<Rightarrow> nat \<Rightarrow> nat" where
  "reconnectDelay capDelay attempts = min (1000 * 2 ^ (attempts - 1)) capDelay"

definition attemptReconnect_capped :: "nat \<Rightarrow> world \<Rightarrow> world" where
  "attemptReconnect_capped capDelay w =
     (let w1 = w\<lparr>this := (this w)\<lparr>reconnectAttempts := reconnectAttempts (this w) + 1\<rparr>\<rparr>;
          delay = reconnectDelay capDelay (reconnectAttempts (this w1));
          w2 = emit (console_log (Reconnect_in delay (reconnectAttempts (this w1)))) w1;
          w3 = (case reconnectTimeout (this w2) of
                  Some h \<Rightarrow> if h \<noteq> 0 then clearTimeout h w2 else w2
                | None \<Rightarrow> w2);
          (h', w4) = setTimeout delay w3
      in w4\<lparr>this := (this w4)\<lparr>reconnectTimeout := Some h'\<rparr>\<rparr>)"

definition attemptReconnect :: "world \<Rightarrow> world" where
  "attemptReconnect = attemptReconnect_capped 30000"

definition attemptReconnect_variant2 :: "world \<Rightarrow> world" where
  "attemptReconnect_variant2 = attemptReconnect_capped 5000"

text \<open>The callback \<open>attemptReconnect\<close> hands to \<open>setTimeout\<close>.\<close>

definition reconnect_callback :: "platform \<Rightarrow> world \<Rightarrow> world" where
  "reconnect_callback P w =
     connectWebSocket P (emit (console_log (Reconnecting (reconnectAttempts (this w)))) w)"

definition disconnect :: "world \<Rightarrow> world" where
  "disconnect w =
     (let w1 = (case reconnectTimeout (this w) of
                  Some h \<Rightarrow>
                    if h \<noteq> 0
                    then (clearTimeout h w)\<lparr>this := (this w)\<lparr>reconnectTimeout := None\<rparr>\<rparr>
                    else w
                | None \<Rightarrow> w);
          w2 = (case socket (this w1) of
                  Some s \<Rightarrow>
                    if readyState (window w1) s < 2
                    then (let w' = socket_close s
                                     (emit (console_log (Closing_WebSocket (transferId (this w1)))) w1)
                          in notifyConnectionStatus False (w'\<lparr>this := (this w')\<lparr>socket := None\<rparr>\<rparr>))
                    else w1
                | None \<Rightarrow> w1)
      in w2\<lparr>this := (this w2)\<lparr>transferId := None, signature := None\<rparr>\<rparr>)"

text \<open>
  \<open>createTransfer\<close>, from where its response has arrived with success: the transfer id
  and the signature of the response are stored.
\<close>

definition createTransfer_response :: "string \<Rightarrow> string \<Rightarrow> world \<Rightarrow> world" where
  "createTransfer_response transferRequestId sig w =
     w\<lparr>this := (this w)\<lparr>transferId := Some transferRequestId, signature := Some sig\<rparr>\<rparr>"

definition listenToTransfer ::
  "platform \<Rightarrow> string \<Rightarrow> string \<Rightarrow> callback option \<Rightarrow> callback option \<Rightarrow> callback option
     \<Rightarrow> world \<Rightarrow> world" where
  "listenToTransfer P tid sig onStatus onError onConnection w =
     (let c = this w;
          c1 = c\<lparr>transferId := Some tid, signature := Some sig\<rparr>;
          c2 = (case onStatus of Some f \<Rightarrow> c1\<lparr>onStatusCallback := Some f\<rparr> | None \<Rightarrow> c1);
          c3 = (case onError of Some f \<Rightarrow> c2\<lparr>onErrorCallback := Some f\<rparr> | None \<Rightarrow> c2);
          c4 = (case onConnection of Some f \<Rightarrow> c3\<lparr>onConnectionCallback := Some f\<rparr> | None \<Rightarrow> c3)
      in connectWebSocket P (w\<lparr>this := c4\<rparr>))"

subsection \<open>The handlers \<open>connectWebSocket\<close> installs on a socket\<close>

definition onopen :: "world \<Rightarrow> world" where
  "onopen w =
     (let w1 = notifyConnectionStatus True w
      in w1\<lparr>this := (this w1)\<lparr>reconnectAttempts := 0\<rparr>\<rparr>)"

definition onclose :: "nat \<Rightarrow> world \<Rightarrow> world" where
  "onclose code w =
     (let w1 = notifyConnectionStatus False w;
          w2 = w1\<lparr>this := (this w1)\<lparr>socket := None\<rparr>\<rparr>
      in if code \<noteq> 1000 \<and> reconnectAttempts (this w2) < maxReconnectAttempts (this w2)
         then attemptReconnect w2
         else w2)"

definition onerror :: "world \<Rightarrow> world" where
  "onerror w =
     notifyError (JString ''WebSocket error occurred'')
       (emit (console_error (WebSocket_error_for (transferId (this w)))) w)"

definition pong :: string where
  \<open>pong = ''{"type":"pong"}''\<close>

text \<open>
  \<open>JSON.parse\<close> may throw, and so does \<open>data.type\<close> when \<open>data\<close> is \<open>null\<close>; both land in
  the \<open>catch\<close> block.
\<close>

definition onmessage :: "platform \<Rightarrow> sock \<Rightarrow> string \<Rightarrow> world \<Rightarrow> world" where
  "onmessage P s evt_data w =
     (let w1 = emit (console_log (Message_received (transferId (this w)) evt_data)) w
      in case JSON_parse P evt_data of
           None \<Rightarrow> notifyError (JString ''Failed to parse message'') w1
         | Some data \<Rightarrow>
             if data = JNull
             then notifyError (JString ''Failed to parse message'') w1
             else if property data ''type'' = Some (JString ''status'')
                \<and> truthy (property data ''transfer'')
             then (case property data ''transfer'' of
                     Some t \<Rightarrow> notifyStatus t w1 | None \<Rightarrow> w1)
             else if property data ''type'' = Some (JString ''error'')
                \<and> truthy (property data ''message'')
             then (case property data ''message'' of
                     Some m \<Rightarrow> notifyError m w1 | None \<Rightarrow> w1)
             else if property data ''type'' = Some (JString ''ping'')
             then (if readyState (window w1) s = 1
                   then emit (WebSocket_send s pong) w1
                   else w1)
             else w1)"

subsection \<open>Events\<close>

text \<open>
  What can happen to a client: the caller invokes a public method, the response of an
  earlier \<open>createTransfer\<close> arrives, or the browser delivers an event to a socket or fires
  a timer. The browser delivers \<open>open\<close> to a
  socket that is connecting, \<open>message\<close> to a socket that is open, \<open>close\<close> and
  \<open>error\<close> to a socket that is not yet closed, and fires only a timer that is pending;
  an event the browser cannot deliver leaves the world as it is.
\<close>

datatype event =
    Call_listenToTransfer string string "callback option" "callback option" "callback option"
  | Call_disconnect
  | Transfer_created string string
  | Open_event sock
  | Close_event sock nat
  | Error_event sock
  | Message_event sock string
  | Timeout_fired nat

definition set_readyState :: "sock \<Rightarrow> nat \<Rightarrow> world \<Rightarrow> world" where
  "set_readyState s r w = w\<lparr>window := (window w)\<lparr>readyState := (readyState (window w))(s := r)\<rparr>\<rparr>"

fun step :: "platform \<Rightarrow> world \<Rightarrow> event \<Rightarrow> world" where
  "step P w (Call_listenToTransfer tid sig onStatus onError onConnection) =
     listenToTransfer P tid sig onStatus onError onConnection w"
| "step P w Call_disconnect = disconnect w"
| "step P w (Transfer_created transferRequestId sig) =
     createTransfer_response transferRequestId sig w"
| "step P w (Open_event s) =
     (if s < socket_count (window w) \<and> readyState (window w) s = 0
      then onopen (set_readyState s 1 w) else w)"
| "step P w (Close_event s code) =
     (if s < socket_count (window w) \<and> readyState (window w) s \<noteq> 3
      then onclose code (set_readyState s 3 w) else w)"
| "step P w (Error_event s) =
     (if s < socket_count (window w) \<and> readyState (window w) s \<noteq> 3
      then onerror w else w)"
| "step P w (Message_event s evt_data) =
     (if s < socket_count (window w) \<and> readyState (window w) s = 1
      then onmessage P s evt_data w else w)"
| "step P w (Timeout_fired h) =
     (if h \<in> set (timeouts (window w))
      then reconnect_callback P
             (w\<lparr>window := (window w)\<lparr>timeouts := removeAll h (timeouts (window w))\<rparr>\<rparr>)
      else w)"

definition run :: "platform \<Rightarrow> world \<Rightarrow> event list \<Rightarrow> world" where
  "run P w evs = foldl (step P) w evs"

fun caller_action :: "event \<Rightarrow> bool" where
  "caller_action (Call_listenToTransfer tid sig a b c) = True"
| "caller_action Call_disconnect = True"
| "caller_action e = False"


fun is_open :: "event \<Rightarrow> bool" where
  "is_open (Open_event s) = True"
| "is_open e = False"

fun is_close :: "event \<Rightarrow> bool" where
  "is_close (Close_event s code) = True"
| "is_close e = False"

subsection \<open>Reading a trace\<close>

fun is_retry :: "effect \<Rightarrow> bool" where
  "is_retry (setTimeout_call h delay) = True"
| "is_retry e = False"

fun is_connection_attempt :: "effect \<Rightarrow> bool" where
  "is_connection_attempt (WebSocket_new url) = True"
| "is_connection_attempt e = False"

fun is_observer_call :: "effect \<Rightarrow> bool" where
  "is_observer_call (StatusCallback cb v) = True"
| "is_observer_call (ErrorCallback cb v) = True"
| "is_observer_call (ConnectionCallback cb b) = True"
| "is_observer_call e = False"

text \<open>The retries scheduled and the connection attempts made so far.\<close>

definition retries :: "world \<Rightarrow> nat" where
  "retries w = length (filter is_retry (trace w))"

definition connection_attempts :: "world \<Rightarrow> nat" where
  "connection_attempts w = length (filter is_connection_attempt (trace w))"

text \<open>The call an observer receives, when one is registered.\<close>

definition connection_calls :: "ZenobiaClient \<Rightarrow> bool \<Rightarrow> effect list" where
  "connection_calls c b =
     (case onConnectionCallback c of Some cb \<Rightarrow> [ConnectionCallback cb b] | None \<Rightarrow> [])"

definition error_calls :: "ZenobiaClient \<Rightarrow> json \<Rightarrow> effect list" where
  "error_calls c v =
     (case onErrorCallback c of Some cb \<Rightarrow> [ErrorCallback cb v] | None \<Rightarrow> [])"

definition status_calls :: "ZenobiaClient \<Rightarrow> json \<Rightarrow> effect list" where
  "status_calls c v =
     (case onStatusCallback c of Some cb \<Rightarrow> [StatusCallback cb v] | None \<Rightarrow> [])"

text \<open>The effects between two worlds of a run.\<close>

definition since :: "world \<Rightarrow> world \<Rightarrow> effect list" where
  "since w w' = drop (length (trace w)) (trace w')"

definition scheme :: "world \<Rightarrow> string" where
  "scheme w = (if location_protocol (window w) = ''https:'' then ''wss:'' else ''ws:'')"

definition has_credentials :: "world \<Rightarrow> bool" where
  "has_credentials w =
     (truthy_string (transferId (this w)) \<and> truthy_string (signature (this w)))"


text \<open>A world in which nothing has happened yet: the constructor has run.\<close>

definition fresh_world :: "bool \<Rightarrow> string \<Rightarrow> world" where
  "fresh_world isTest protocol =
     \<lparr> this = ZenobiaClient_new isTest,
       window = \<lparr> location_protocol = protocol, readyState = (\<lambda>s. 3), socket_count = 0,
                  timeouts = [], timer_count = 0 \<rparr>,
       trace = [] \<rparr>"

subsection \<open>Example runs\<close>

text \<open>
  A platform whose \<open>JSON.parse\<close> knows the frames of the examples (any other text is
  taken not to parse) and whose socket constructor never throws, and four runs from a
  fresh world on a page served over https: a session that is open, the same session
  after \<open>disconnect()\<close>, the same session after the connection was lost with code 1006,
  and a session whose every connection failed until the attempt cap was reached.
\<close>

definition example_platform :: platform where
  \<open>example_platform =
     \<lparr> JSON_parse = map_of
         [(''{"type":"ping"}'', JObject [(''type'', JString ''ping'')]),
          (''{"type":"foo"}'', JObject [(''type'', JString ''foo'')]),
          (''{"type":"status"}'', JObject [(''type'', JString ''status'')]),
          (''null'', JNull)],
       WebSocket_throws = (\<lambda>url. False) \<rparr>\<close>

definition listening :: world where
  "listening =
     run example_platform (fresh_world False ''https:'')
       [Call_listenToTransfer ''t1'' ''s1'' (Some 1) (Some 2) (Some 3), Open_event 0]"

definition disconnected :: world where
  "disconnected = run example_platform listening [Call_disconnect]"


definition exhausted :: world where
  "exhausted =
     run example_platform (fresh_world False ''https:'')
       [Call_listenToTransfer ''t1'' ''s1'' (Some 1) (Some 2) (Some 3),
        Close_event 0 1006, Timeout_fired 1, Close_event 1 1006, Timeout_fired 2,
        Close_event 2 1006, Timeout_fired 3, Close_event 3 1006, Timeout_fired 4,
        Close_event 4 1006, Timeout_fired 5, Close_event 5 1006, Timeout_fired 6]"

section \<open>Properties\<close>

subsection \<open>What each operation does to the client, the browser and the trace\<close>

lemma emit_simps [simp]:
  "this (emit e w) = this w" "window (emit e w) = window w" "trace (emit e w) = trace w @ [e]"
  by (simp_all add: emit_def)

lemma notifyConnectionStatus_simps [simp]:
  "this (notifyConnectionStatus b w) = this w"
  "window (notifyConnectionStatus b w) = window w"
  "trace (notifyConnectionStatus b w) =
     trace w @ connection_calls (this w) b"
  by (simp_all add: notifyConnectionStatus_def connection_calls_def split: option.splits)

lemma notifyStatus_simps [simp]:
  "this (notifyStatus v w) = this w"
  "window (notifyStatus v w) = window w"
  "trace (notifyStatus v w) =
     trace w @ status_calls (this w) v"
  by (simp_all add: notifyStatus_def status_calls_def split: option.splits)

lemma notifyError_simps [simp]:
  "this (notifyError v w) = this w"
  "window (notifyError v w) = window w"
  "trace (notifyError v w) =
     trace w @ error_calls (this w) v"
  by (simp_all add: notifyError_def error_calls_def split: option.splits)


lemma calls_filter [simp]:
  "filter is_retry (connection_calls c b) = []"
  "filter is_retry (error_calls c v) = []"
  "filter is_retry (status_calls c v) = []"
  "filter is_connection_attempt (connection_calls c b) = []"
  "filter is_connection_attempt (error_calls c v) = []"
  "filter is_connection_attempt (status_calls c v) = []"
  by (simp_all add: connection_calls_def error_calls_def status_calls_def split: option.splits)

lemma connection_calls_update [simp]:
  "connection_calls (c\<lparr>socket := x\<rparr>) = connection_calls c"
  "connection_calls (c\<lparr>reconnectTimeout := y\<rparr>) = connection_calls c"
  "connection_calls (c\<lparr>reconnectAttempts := n\<rparr>) = connection_calls c"
  "connection_calls (c\<lparr>transferId := t\<rparr>) = connection_calls c"
  "connection_calls (c\<lparr>signature := g\<rparr>) = connection_calls c"
  by (simp_all add: connection_calls_def fun_eq_iff)

lemma error_calls_update [simp]:
  "error_calls (c\<lparr>socket := x\<rparr>) = error_calls c"
  "error_calls (c\<lparr>reconnectTimeout := y\<rparr>) = error_calls c"
  "error_calls (c\<lparr>reconnectAttempts := n\<rparr>) = error_calls c"
  "error_calls (c\<lparr>transferId := t\<rparr>) = error_calls c"
  "error_calls (c\<lparr>signature := g\<rparr>) = error_calls c"
  by (simp_all add: error_calls_def fun_eq_iff)

lemma socket_close_simps [simp]:
  "this (socket_close s w) = this w"
  "trace (socket_close s w) = trace w @ [WebSocket_close s None]"
  "timeouts (window (socket_close s w)) = timeouts (window w)"
  "timer_count (window (socket_close s w)) = timer_count (window w)"
  "socket_count (window (socket_close s w)) = socket_count (window w)"
  "location_protocol (window (socket_close s w)) = location_protocol (window w)"
  "readyState (window (socket_close s w)) =
     (if readyState (window w) s < 2 then (readyState (window w))(s := 2) else readyState (window w))"
  by (simp_all add: socket_close_def Let_def)

lemma clearTimeout_simps [simp]:
  "this (clearTimeout h w) = this w"
  "trace (clearTimeout h w) = trace w @ [clearTimeout_call h]"
  "timeouts (window (clearTimeout h w)) = removeAll h (timeouts (window w))"
  "timer_count (window (clearTimeout h w)) = timer_count (window w)"
  "socket_count (window (clearTimeout h w)) = socket_count (window w)"
  "location_protocol (window (clearTimeout h w)) = location_protocol (window w)"
  "readyState (window (clearTimeout h w)) = readyState (window w)"
  by (simp_all add: clearTimeout_def)

lemma setTimeout_simps [simp]:
  "fst (setTimeout d w) = Suc (timer_count (window w))"
  "this (snd (setTimeout d w)) = this w"
  "trace (snd (setTimeout d w)) = trace w @ [setTimeout_call (Suc (timer_count (window w))) d]"
  "timeouts (window (snd (setTimeout d w))) = timeouts (window w) @ [Suc (timer_count (window w))]"
  "timer_count (window (snd (setTimeout d w))) = Suc (timer_count (window w))"
  "socket_count (window (snd (setTimeout d w))) = socket_count (window w)"
  "location_protocol (window (snd (setTimeout d w))) = location_protocol (window w)"
  "readyState (window (snd (setTimeout d w))) = readyState (window w)"
  by (simp_all add: setTimeout_def Let_def)

lemma WebSocket_ctor_simps [simp]:
  "fst (WebSocket_ctor P url w) = (if WebSocket_throws P url then None else Some (socket_count (window w)))"
  "this (snd (WebSocket_ctor P url w)) = this w"
  "trace (snd (WebSocket_ctor P url w)) = trace w @ [WebSocket_new url]"
  "timeouts (window (snd (WebSocket_ctor P url w))) = timeouts (window w)"
  "timer_count (window (snd (WebSocket_ctor P url w))) = timer_count (window w)"
  "location_protocol (window (snd (WebSocket_ctor P url w))) = location_protocol (window w)"
  by (simp_all add: WebSocket_ctor_def Let_def)

lemma attemptReconnect_capped_simps:
  "trace (attemptReconnect_capped c w) =
     trace w @ [console_log (Reconnect_in (reconnectDelay c (Suc (reconnectAttempts (this w))))
                               (Suc (reconnectAttempts (this w))))]
     @ (case reconnectTimeout (this w) of
          Some h \<Rightarrow> if h \<noteq> 0 then [clearTimeout_call h] else [] | None \<Rightarrow> [])
     @ [setTimeout_call (Suc (timer_count (window w)))
          (reconnectDelay c (Suc (reconnectAttempts (this w))))]"
  "this (attemptReconnect_capped c w) =
     (this w)\<lparr>reconnectAttempts := Suc (reconnectAttempts (this w)),
              reconnectTimeout := Some (Suc (timer_count (window w)))\<rparr>"
  "socket_count (window (attemptReconnect_capped c w)) = socket_count (window w)"
  "readyState (window (attemptReconnect_capped c w)) = readyState (window w)"
  "location_protocol (window (attemptReconnect_capped c w)) = location_protocol (window w)"
  by (simp_all add: attemptReconnect_capped_def Let_def split_beta split: option.splits)


lemma wsUrl_socket [simp]: "wsUrl p (c\<lparr>socket := x\<rparr>) = wsUrl p c"
  by (simp add: wsUrl_def)


lemma connectWebSocket_this:
  "this (connectWebSocket P w) =
     (this w)\<lparr>socket :=
        (if \<not> has_credentials w \<or> WebSocket_throws P (wsUrl (scheme w) (this w))
         then None else Some (socket_count (window w)))\<rparr>"
  by (cases "socket (this w)")
     (simp_all add: has_credentials_def scheme_def connectWebSocket_def Let_def split_beta split: option.splits)

lemma connectWebSocket_trace:
  "trace (connectWebSocket P w) =
     trace w
     @ (case socket (this w) of
          Some s \<Rightarrow> WebSocket_close s None #
             connection_calls (this w) False
        | None \<Rightarrow> [])
     @ (if \<not> has_credentials w then [console_error Missing_credentials]
        else WebSocket_new (wsUrl (scheme w) (this w)) #
             (if WebSocket_throws P (wsUrl (scheme w) (this w))
              then error_calls (this w) (JString ''Failed to establish WebSocket connection'')
              else []))"
  by (cases "socket (this w)")
     (simp_all add: has_credentials_def scheme_def connectWebSocket_def Let_def split_beta split: option.splits)


lemma onopen_simps:
  "this (onopen w) = (this w)\<lparr>reconnectAttempts := 0\<rparr>"
  "window (onopen w) = window w"
  "trace (onopen w) =
     trace w @ connection_calls (this w) True"
  by (simp_all add: onopen_def Let_def)

lemma onerror_simps:
  "this (onerror w) = this w"
  "window (onerror w) = window w"
  "trace (onerror w) =
     trace w @ console_error (WebSocket_error_for (transferId (this w))) #
       error_calls (this w) (JString ''WebSocket error occurred'')"
  by (simp_all add: onerror_def)

lemma onclose_simps:
  "this (onclose code w) =
     (if code \<noteq> 1000 \<and> reconnectAttempts (this w) < maxReconnectAttempts (this w)
      then (this w)\<lparr>socket := None, reconnectAttempts := Suc (reconnectAttempts (this w)),
                    reconnectTimeout := Some (Suc (timer_count (window w)))\<rparr>
      else (this w)\<lparr>socket := None\<rparr>)"
  "trace (onclose code w) =
     trace w
     @ connection_calls (this w) False
     @ (if code \<noteq> 1000 \<and> reconnectAttempts (this w) < maxReconnectAttempts (this w)
        then [console_log (Reconnect_in (reconnectDelay 30000 (Suc (reconnectAttempts (this w))))
                               (Suc (reconnectAttempts (this w))))]
             @ (case reconnectTimeout (this w) of
                  Some h \<Rightarrow> if h \<noteq> 0 then [clearTimeout_call h] else [] | None \<Rightarrow> [])
             @ [setTimeout_call (Suc (timer_count (window w)))
                  (reconnectDelay 30000 (Suc (reconnectAttempts (this w))))]
        else [])"
  "socket_count (window (onclose code w)) = socket_count (window w)"
  "readyState (window (onclose code w)) = readyState (window w)"
  "location_protocol (window (onclose code w)) = location_protocol (window w)"
  by (simp_all add: onclose_def Let_def attemptReconnect_def attemptReconnect_capped_simps)

lemma onclose_at_cap:
  "code = 1000 \<or> maxReconnectAttempts (this w) \<le> reconnectAttempts (this w) \<Longrightarrow>
   window (onclose code w) = window w"
  by (auto simp add: onclose_def Let_def)


lemma onmessage_simps:
  "this (onmessage P s d w) = this w"
  "window (onmessage P s d w) = window w"
  by (simp_all add: onmessage_def Let_def split: option.splits)

lemma disconnect_this:
  "this (disconnect w) =
     (this w)\<lparr>reconnectTimeout :=
                (case reconnectTimeout (this w) of
                   Some h \<Rightarrow> if h \<noteq> 0 then None else Some h | None \<Rightarrow> None),
              socket :=
                (case socket (this w) of
                   Some s \<Rightarrow> if readyState (window w) s < 2 then None else Some s
                 | None \<Rightarrow> None),
              transferId := None, signature := None\<rparr>"
  by (simp add: disconnect_def Let_def split: option.splits)

lemma disconnect_trace:
  "trace (disconnect w) =
     trace w
     @ (case reconnectTimeout (this w) of
          Some h \<Rightarrow> if h \<noteq> 0 then [clearTimeout_call h] else [] | None \<Rightarrow> [])
     @ (case socket (this w) of
          Some s \<Rightarrow>
            if readyState (window w) s < 2
            then [console_log (Closing_WebSocket (transferId (this w))), WebSocket_close s None]
                 @ connection_calls (this w) False
            else []
        | None \<Rightarrow> [])"
  by (simp add: disconnect_def Let_def split: option.splits)

lemma disconnect_window:
  "timeouts (window (disconnect w)) =
     (case reconnectTimeout (this w) of
        Some h \<Rightarrow> if h \<noteq> 0 then removeAll h (timeouts (window w)) else timeouts (window w)
      | None \<Rightarrow> timeouts (window w))"
  "socket_count (window (disconnect w)) = socket_count (window w)"
  "timer_count (window (disconnect w)) = timer_count (window w)"
  "location_protocol (window (disconnect w)) = location_protocol (window w)"
  "readyState (window (disconnect w)) =
     (case socket (this w) of
        Some s \<Rightarrow> if readyState (window w) s < 2 then (readyState (window w))(s := 2)
                  else readyState (window w)
      | None \<Rightarrow> readyState (window w))"
  by (simp_all add: disconnect_def Let_def split: option.splits)


lemma onmessage_trace_no_retry:
  "filter is_retry (trace (onmessage P s d w)) = filter is_retry (trace w)"
  "filter is_connection_attempt (trace (onmessage P s d w)) = filter is_connection_attempt (trace w)"
  by (simp_all add: onmessage_def Let_def split: option.splits)

lemma connectWebSocket_counts:
  "retries (connectWebSocket P w) = retries w"
  "reconnectAttempts (this (connectWebSocket P w)) = reconnectAttempts (this w)"
  "maxReconnectAttempts (this (connectWebSocket P w)) = maxReconnectAttempts (this w)"
  by (simp_all add: retries_def connectWebSocket_this connectWebSocket_trace split: option.splits)

lemma listenToTransfer_counts:
  "retries (listenToTransfer P tid sig a b c w) = retries w"
  "reconnectAttempts (this (listenToTransfer P tid sig a b c w)) = reconnectAttempts (this w)"
  "maxReconnectAttempts (this (listenToTransfer P tid sig a b c w)) = maxReconnectAttempts (this w)"
    apply (simp_all add: listenToTransfer_def Let_def connectWebSocket_counts)
    apply (simp_all add: retries_def split: option.splits)
  done

lemma disconnect_counts:
  "retries (disconnect w) = retries w"
  "reconnectAttempts (this (disconnect w)) = reconnectAttempts (this w)"
  "maxReconnectAttempts (this (disconnect w)) = maxReconnectAttempts (this w)"
  by (simp_all add: retries_def disconnect_this disconnect_trace split: option.splits)

lemma reconnect_callback_counts:
  "retries (reconnect_callback P w) = retries w"
  "reconnectAttempts (this (reconnect_callback P w)) = reconnectAttempts (this w)"
  "maxReconnectAttempts (this (reconnect_callback P w)) = maxReconnectAttempts (this w)"
    apply (simp_all add: reconnect_callback_def connectWebSocket_counts)
    apply (simp_all add: retries_def)
  done

lemma onclose_counts:
  "retries (onclose code w) + reconnectAttempts (this w)
     = retries w + reconnectAttempts (this (onclose code w))"
  "maxReconnectAttempts (this (onclose code w)) = maxReconnectAttempts (this w)"
  "reconnectAttempts (this w) \<le> maxReconnectAttempts (this w) \<Longrightarrow>
     reconnectAttempts (this (onclose code w)) \<le> maxReconnectAttempts (this w)"
  by (simp_all add: retries_def onclose_simps split: option.splits)

lemma onerror_counts:
  "retries (onerror w) = retries w"
  by (simp add: retries_def onerror_simps)

lemma onmessage_counts:
  "retries (onmessage P s d w) = retries w"
  by (simp add: retries_def onmessage_trace_no_retry)

lemma set_readyState_simps [simp]:
  "this (set_readyState s r w) = this w"
  "trace (set_readyState s r w) = trace w"
  "retries (set_readyState s r w) = retries w"
  "timeouts (window (set_readyState s r w)) = timeouts (window w)"
  "timer_count (window (set_readyState s r w)) = timer_count (window w)"
  "socket_count (window (set_readyState s r w)) = socket_count (window w)"
  "location_protocol (window (set_readyState s r w)) = location_protocol (window w)"
  "readyState (window (set_readyState s r w)) = (readyState (window w))(s := r)"
  by (simp_all add: set_readyState_def retries_def)

lemma createTransfer_response_simps [simp]:
  "this (createTransfer_response tid sig w)
     = (this w)\<lparr>transferId := Some tid, signature := Some sig\<rparr>"
  "window (createTransfer_response tid sig w) = window w"
  "trace (createTransfer_response tid sig w) = trace w"
  "retries (createTransfer_response tid sig w) = retries w"
  "connection_attempts (createTransfer_response tid sig w) = connection_attempts w"
  by (simp_all add: createTransfer_response_def retries_def connection_attempts_def)

lemma step_max:
  "maxReconnectAttempts (this (step P w ev)) = maxReconnectAttempts (this w)"
  by (cases ev)
     (simp_all add: listenToTransfer_counts disconnect_counts reconnect_callback_counts
        onclose_counts onopen_simps onerror_simps onmessage_simps)

lemma step_attempts_le:
  "reconnectAttempts (this w) \<le> maxReconnectAttempts (this w) \<Longrightarrow>
   reconnectAttempts (this (step P w ev)) \<le> maxReconnectAttempts (this w)"
proof (cases ev)
  case (Close_event s code)
  assume "reconnectAttempts (this w) \<le> maxReconnectAttempts (this w)"
  then show ?thesis
    using onclose_counts(3) [of "set_readyState s 3 w" code]
    by (simp add: Close_event)
qed (simp_all add: listenToTransfer_counts disconnect_counts reconnect_callback_counts
        onopen_simps onerror_simps onmessage_simps)

lemma step_retries:
  "\<not> is_open ev \<Longrightarrow>
   retries (step P w ev) + reconnectAttempts (this w)
     = retries w + reconnectAttempts (this (step P w ev))"
proof (cases ev)
  case (Close_event s code)
  show ?thesis
    using onclose_counts(1) [of code "set_readyState s 3 w"]
    by (simp add: Close_event)
next
  case (Timeout_fired h)
  then show ?thesis
    by (simp add: reconnect_callback_counts) (simp add: retries_def)
qed (simp_all add: listenToTransfer_counts disconnect_counts
        onerror_counts onerror_simps onmessage_counts onmessage_simps)


lemma run_max:
  "maxReconnectAttempts (this (run P w evs)) = maxReconnectAttempts (this w)"
  unfolding run_def by (induction evs arbitrary: w) (simp_all add: step_max)

lemma run_attempts_le:
  "reconnectAttempts (this w) \<le> maxReconnectAttempts (this w) \<Longrightarrow>
   reconnectAttempts (this (run P w evs)) \<le> maxReconnectAttempts (this w)"
  unfolding run_def
proof (induction evs arbitrary: w)
  case Nil
  then show ?case by simp
next
  case (Cons ev evs)
  from Cons.prems have "reconnectAttempts (this (step P w ev)) \<le> maxReconnectAttempts (this (step P w ev))"
    by (simp add: step_attempts_le step_max)
  from Cons.IH [OF this] show ?case by (simp add: step_max)
qed

lemma run_retries:
  "\<forall>ev \<in> set evs. \<not> is_open ev \<Longrightarrow>
   retries (run P w evs) + reconnectAttempts (this w)
     = retries w + reconnectAttempts (this (run P w evs))"
  unfolding run_def
proof (induction evs arbitrary: w)
  case Nil
  then show ?case by simp
next
  case (Cons ev evs)
  have a: "retries (step P w ev) + reconnectAttempts (this w)
     = retries w + reconnectAttempts (this (step P w ev))"
    using Cons.prems by (simp add: step_retries)
  have b: "retries (foldl (step P) (step P w ev) evs) + reconnectAttempts (this (step P w ev))
     = retries (step P w ev) + reconnectAttempts (this (foldl (step P) (step P w ev) evs))"
    using Cons.prems by (intro Cons.IH) simp
  from a b show ?case by simp
qed

subsection \<open>Connections, credentials and the dispatch of frames\<close>

lemma calls_filter_observer [simp]:
  "filter is_observer_call (connection_calls c b) = connection_calls c b"
  "filter is_observer_call (error_calls c v) = error_calls c v"
  "filter is_observer_call (status_calls c v) = status_calls c v"
  by (simp_all add: connection_calls_def error_calls_def status_calls_def split: option.splits)

lemma connectWebSocket_attempts:
  "connection_attempts (connectWebSocket P w)
     = connection_attempts w + (if has_credentials w then 1 else 0)"
  by (simp add: connection_attempts_def connectWebSocket_trace split: option.splits)

lemma connectWebSocket_endpoint:
  "transferId (this w) = Some tid \<Longrightarrow> signature (this w) = Some sig \<Longrightarrow>
   tid \<noteq> [] \<Longrightarrow> sig \<noteq> [] \<Longrightarrow>
   filter is_connection_attempt (since w (connectWebSocket P w)) =
     [WebSocket_new
        ((if location_protocol (window w) = ''https:'' then ''wss:'' else ''ws:'')
         @ ''//'' @ wsBaseUrl (this w) @ ''/transfers/'' @ tid @ ''/ws?token='' @ sig)]"
  by (cases "socket (this w)")
     (simp_all add: connectWebSocket_trace has_credentials_def since_def scheme_def wsUrl_def)

lemma listenToTransfer_endpoint:
  "tid \<noteq> [] \<Longrightarrow> sig \<noteq> [] \<Longrightarrow>
   filter is_connection_attempt
     (since w (listenToTransfer P tid sig onStatus onError onConnection w)) =
     [WebSocket_new
        ((if location_protocol (window w) = ''https:'' then ''wss:'' else ''ws:'')
         @ ''//'' @ wsBaseUrl (this w) @ ''/transfers/'' @ tid @ ''/ws?token='' @ sig)]"
  by (cases onStatus; cases onError; cases onConnection; cases "socket (this w)")
     (simp_all add: listenToTransfer_def Let_def connectWebSocket_trace has_credentials_def
        since_def scheme_def wsUrl_def)

lemma onmessage_ping:
  "JSON_parse P d = Some data \<Longrightarrow> property data ''type'' = Some (JString ''ping'') \<Longrightarrow>
   readyState (window w) s = 1 \<Longrightarrow>
   trace (onmessage P s d w) =
     trace w @ [console_log (Message_received (transferId (this w)) d), WebSocket_send s pong]"
  by (cases data) (simp_all add: onmessage_def Let_def)

lemma onmessage_parse_failure:
  "JSON_parse P d = None \<or> JSON_parse P d = Some JNull \<Longrightarrow>
   trace (onmessage P s d w) =
     trace w @ console_log (Message_received (transferId (this w)) d)
       # error_calls (this w) (JString ''Failed to parse message'')"
  by (auto simp add: onmessage_def Let_def)

lemma onmessage_ignored:
  "JSON_parse P d = Some data \<Longrightarrow> data \<noteq> JNull \<Longrightarrow>
   \<not> (property data ''type'' = Some (JString ''status'') \<and> truthy (property data ''transfer'')) \<Longrightarrow>
   \<not> (property data ''type'' = Some (JString ''error'') \<and> truthy (property data ''message'')) \<Longrightarrow>
   property data ''type'' \<noteq> Some (JString ''ping'') \<Longrightarrow>
   trace (onmessage P s d w) =
     trace w @ [console_log (Message_received (transferId (this w)) d)]"
  by (auto simp add: onmessage_def Let_def)

lemma onmessage_attempts:
  "connection_attempts (onmessage P s d w) = connection_attempts w"
  by (simp add: connection_attempts_def onmessage_trace_no_retry)

lemma onclose_attempts:
  "connection_attempts (onclose code w) = connection_attempts w"
  by (simp add: connection_attempts_def onclose_simps split: option.splits)

lemma set_readyState_more [simp]:
  "connection_attempts (set_readyState s r w) = connection_attempts w"
  "has_credentials (set_readyState s r w) = has_credentials w"
  by (simp_all add: connection_attempts_def has_credentials_def)

lemma step_close_at_cap:
  assumes "reconnectAttempts (this w) = maxReconnectAttempts (this w)" and "is_close ev"
  shows "reconnectAttempts (this (step P w ev)) = maxReconnectAttempts (this (step P w ev))
     \<and> retries (step P w ev) = retries w
     \<and> connection_attempts (step P w ev) = connection_attempts w
     \<and> timeouts (window (step P w ev)) = timeouts (window w)"
proof (cases ev)
  case (Close_event s code)
  have "window (onclose code (set_readyState s 3 w)) = window (set_readyState s 3 w)"
    using assms(1) by (intro onclose_at_cap) simp
  then show ?thesis
    using assms(1) by (simp add: Close_event onclose_simps onclose_attempts retries_def)
qed (use assms(2) in simp_all)

lemma run_closes_at_cap:
  "reconnectAttempts (this w) = maxReconnectAttempts (this w) \<Longrightarrow>
   \<forall>ev \<in> set evs. is_close ev \<Longrightarrow>
   retries (run P w evs) = retries w
   \<and> connection_attempts (run P w evs) = connection_attempts w
   \<and> timeouts (window (run P w evs)) = timeouts (window w)"
  unfolding run_def
proof (induction evs arbitrary: w)
  case Nil
  then show ?case by simp
next
  case (Cons ev evs)
  have s: "reconnectAttempts (this (step P w ev)) = maxReconnectAttempts (this (step P w ev))
     \<and> retries (step P w ev) = retries w
     \<and> connection_attempts (step P w ev) = connection_attempts w
     \<and> timeouts (window (step P w ev)) = timeouts (window w)"
    using Cons.prems by (intro step_close_at_cap) simp_all
  have "retries (foldl (step P) (step P w ev) evs) = retries (step P w ev)
     \<and> connection_attempts (foldl (step P) (step P w ev) evs) = connection_attempts (step P w ev)
     \<and> timeouts (window (foldl (step P) (step P w ev) evs)) = timeouts (window (step P w ev))"
    using Cons.prems s by (intro Cons.IH) simp_all
  with s show ?case by simp
qed

lemma onclose_exhausted:
  "maxReconnectAttempts (this w) \<le> reconnectAttempts (this w) \<Longrightarrow>
   since w (onclose code w) = connection_calls (this w) False
   \<and> window (onclose code w) = window w
   \<and> this (onclose code w) = (this w)\<lparr>socket := None\<rparr>"
  by (simp add: onclose_simps onclose_at_cap since_def)

lemma step_quiet_at_cap:
  assumes "reconnectAttempts (this w) = maxReconnectAttempts (this w)"
    and "timeouts (window w) = []"
    and "\<not> caller_action ev" and "\<not> is_open ev"
  shows "reconnectAttempts (this (step P w ev)) = maxReconnectAttempts (this (step P w ev))
     \<and> timeouts (window (step P w ev)) = []
     \<and> retries (step P w ev) = retries w
     \<and> connection_attempts (step P w ev) = connection_attempts w"
proof (cases ev)
  case (Close_event s code)
  then show ?thesis
    using step_close_at_cap [of w ev P] assms(1,2) by simp
next
  case (Error_event s)
  then show ?thesis
    using assms(1,2)
    by (simp add: onerror_simps onerror_counts) (simp add: connection_attempts_def onerror_simps)
next
  case (Message_event s d)
  then show ?thesis
    using assms(1,2) by (simp add: onmessage_simps onmessage_counts onmessage_attempts)
next
  case (Timeout_fired h)
  then show ?thesis
    using assms(1,2) by simp
next
  case (Transfer_created tid sig)
  then show ?thesis
    using assms(1,2) by simp
qed (use assms(3,4) in simp_all)

lemma run_quiet_at_cap:
  "reconnectAttempts (this w) = maxReconnectAttempts (this w) \<Longrightarrow>
   timeouts (window w) = [] \<Longrightarrow>
   \<forall>ev \<in> set evs. \<not> caller_action ev \<and> \<not> is_open ev \<Longrightarrow>
   retries (run P w evs) = retries w
   \<and> connection_attempts (run P w evs) = connection_attempts w
   \<and> timeouts (window (run P w evs)) = []"
  unfolding run_def
proof (induction evs arbitrary: w)
  case Nil
  then show ?case by simp
next
  case (Cons ev evs)
  have s: "reconnectAttempts (this (step P w ev)) = maxReconnectAttempts (this (step P w ev))
     \<and> timeouts (window (step P w ev)) = []
     \<and> retries (step P w ev) = retries w
     \<and> connection_attempts (step P w ev) = connection_attempts w"
    using Cons.prems by (intro step_quiet_at_cap) simp_all
  have "retries (foldl (step P) (step P w ev) evs) = retries (step P w ev)
     \<and> connection_attempts (foldl (step P) (step P w ev) evs) = connection_attempts (step P w ev)
     \<and> timeouts (window (foldl (step P) (step P w ev) evs)) = []"
    using Cons.prems s by (intro Cons.IH) simp_all
  with s show ?case by simp
qed






subsection \<open>Pending timers\<close>






subsection \<open>The example runs, evaluated\<close>

lemmas eval_defs = run_def fresh_world_def ZenobiaClient_new_def example_platform_def
  listenToTransfer_def connectWebSocket_def attemptReconnect_def attemptReconnect_capped_def
  reconnect_callback_def disconnect_def onopen_def onclose_def onerror_def onmessage_def
  reconnectDelay_def wsUrl_def emit_def socket_close_def clearTimeout_def setTimeout_def
  WebSocket_ctor_def notifyConnectionStatus_def notifyStatus_def notifyError_def
  set_readyState_def Let_def pong_def

lemma listening_eval:
  "this listening =
     \<lparr> socket = Some 0, reconnectTimeout = None, reconnectAttempts = 0,
       maxReconnectAttempts = 6, transferId = Some ''t1'', signature = Some ''s1'',
       wsBaseUrl = ''transfer-status.zenobiapay.com'',
       onStatusCallback = Some 1, onErrorCallback = Some 2, onConnectionCallback = Some 3 \<rparr>"
  "trace listening =
     [WebSocket_new ''wss://transfer-status.zenobiapay.com/transfers/t1/ws?token=s1'',
      ConnectionCallback 3 True]"
  "socket_count (window listening) = 1"
  "readyState (window listening) 0 = 1"
  "timeouts (window listening) = []"
  "timer_count (window listening) = 0"
  "location_protocol (window listening) = ''https:''"
  by (simp_all add: listening_def eval_defs)

lemma disconnected_eval:
  "this disconnected =
     \<lparr> socket = None, reconnectTimeout = None, reconnectAttempts = 0,
       maxReconnectAttempts = 6, transferId = None, signature = None,
       wsBaseUrl = ''transfer-status.zenobiapay.com'',
       onStatusCallback = Some 1, onErrorCallback = Some 2, onConnectionCallback = Some 3 \<rparr>"
  "since listening disconnected =
     [console_log (Closing_WebSocket (Some ''t1'')), WebSocket_close 0 None,
      ConnectionCallback 3 False]"
  "socket_count (window disconnected) = 1"
  "readyState (window disconnected) 0 = 2"
  "timeouts (window disconnected) = []"
  "timer_count (window disconnected) = 0"
  by (simp_all add: disconnected_def run_def disconnect_this disconnect_trace disconnect_window
        listening_eval since_def connection_calls_def)


lemma exhausted_eval:
  "this exhausted =
     \<lparr> socket = Some 6, reconnectTimeout = Some 6, reconnectAttempts = 6,
       maxReconnectAttempts = 6, transferId = Some ''t1'', signature = Some ''s1'',
       wsBaseUrl = ''transfer-status.zenobiapay.com'',
       onStatusCallback = Some 1, onErrorCallback = Some 2, onConnectionCallback = Some 3 \<rparr>"
  "filter is_retry (trace exhausted) =
     [setTimeout_call 1 1000, setTimeout_call 2 2000, setTimeout_call 3 4000,
      setTimeout_call 4 8000, setTimeout_call 5 16000, setTimeout_call 6 30000]"
  "socket_count (window exhausted) = 7"
  "readyState (window exhausted) 6 = 0"
  "timeouts (window exhausted) = []"
  "timer_count (window exhausted) = 6"
  by (simp_all add: exhausted_def eval_defs)

section \<open>The claims\<close>

text \<open>
  C1. The attempt counter never exceeds \<open>maxReconnectAttempts\<close>, whatever happens to the
  client; in a run in which no connection opens, the retries scheduled are at most the
  attempts the counter has left, so at most the cap. Once the counter has reached the
  cap, the close handler schedules nothing: it calls the connection observer with
  \<open>false\<close> and forgets the socket; further close events schedule no retry, make no
  connection attempt and leave the timers as they are; and when no timer is pending,
  nothing the browser delivers, short of a connection that opens, schedules a retry or
  makes a connection attempt: that takes a call of the caller.
\<close>

theorem reconnect_attempts_capped:
  "reconnectAttempts (this w) \<le> maxReconnectAttempts (this w) \<longrightarrow>
     reconnectAttempts (this (run P w evs)) \<le> maxReconnectAttempts (this w)
     \<and> maxReconnectAttempts (this (run P w evs)) = maxReconnectAttempts (this w)
     \<and> ((\<forall>ev \<in> set evs. \<not> is_open ev) \<longrightarrow>
          retries (run P w evs) - retries w
            \<le> maxReconnectAttempts (this w) - reconnectAttempts (this w))
     \<and> (reconnectAttempts (this w) = maxReconnectAttempts (this w) \<longrightarrow>
          since w (onclose code w) = connection_calls (this w) False
          \<and> window (onclose code w) = window w
          \<and> this (onclose code w) = (this w)\<lparr>socket := None\<rparr>)
     \<and> (reconnectAttempts (this w) = maxReconnectAttempts (this w)
          \<and> (\<forall>ev \<in> set evs. is_close ev) \<longrightarrow>
          retries (run P w evs) = retries w
          \<and> connection_attempts (run P w evs) = connection_attempts w
          \<and> timeouts (window (run P w evs)) = timeouts (window w))
     \<and> (reconnectAttempts (this w) = maxReconnectAttempts (this w)
          \<and> timeouts (window w) = []
          \<and> (\<forall>ev \<in> set evs. \<not> caller_action ev \<and> \<not> is_open ev) \<longrightarrow>
          retries (run P w evs) = retries w
          \<and> connection_attempts (run P w evs) = connection_attempts w
          \<and> timeouts (window (run P w evs)) = [])"
proof (intro impI conjI)
  assume le: "reconnectAttempts (this w) \<le> maxReconnectAttempts (this w)"
  show a: "reconnectAttempts (this (run P w evs)) \<le> maxReconnectAttempts (this w)"
    using le by (rule run_attempts_le)
  show "maxReconnectAttempts (this (run P w evs)) = maxReconnectAttempts (this w)"
    by (rule run_max)
  {
    assume "\<forall>ev \<in> set evs. \<not> is_open ev"
    then have "retries (run P w evs) + reconnectAttempts (this w)
        = retries w + reconnectAttempts (this (run P w evs))"
      by (rule run_retries)
    with a show "retries (run P w evs) - retries w
        \<le> maxReconnectAttempts (this w) - reconnectAttempts (this w)"
      by linarith
  }
  {
    assume eq: "reconnectAttempts (this w) = maxReconnectAttempts (this w)"
    show "since w (onclose code w) = connection_calls (this w) False"
      and "window (onclose code w) = window w"
      and "this (onclose code w) = (this w)\<lparr>socket := None\<rparr>"
      using eq onclose_exhausted [of w code] by simp_all
  }
  {
    assume "reconnectAttempts (this w) = maxReconnectAttempts (this w)
       \<and> (\<forall>ev \<in> set evs. is_close ev)"
    then have "retries (run P w evs) = retries w
       \<and> connection_attempts (run P w evs) = connection_attempts w
       \<and> timeouts (window (run P w evs)) = timeouts (window w)"
      by (intro run_closes_at_cap) simp_all
    then show "retries (run P w evs) = retries w"
      and "connection_attempts (run P w evs) = connection_attempts w"
      and "timeouts (window (run P w evs)) = timeouts (window w)"
      by simp_all
  }
  {
    assume "reconnectAttempts (this w) = maxReconnectAttempts (this w)
       \<and> timeouts (window w) = []
       \<and> (\<forall>ev \<in> set evs. \<not> caller_action ev \<and> \<not> is_open ev)"
    then have "retries (run P w evs) = retries w
       \<and> connection_attempts (run P w evs) = connection_attempts w
       \<and> timeouts (window (run P w evs)) = []"
      by (intro run_quiet_at_cap) simp_all
    then show "retries (run P w evs) = retries w"
      and "connection_attempts (run P w evs) = connection_attempts w"
      and "timeouts (window (run P w evs)) = []"
      by simp_all
  }
qed

theorem reconnect_attempts_capped_witness:
  "reconnectAttempts (this (fresh_world False ''https:'')) = 0
   \<and> maxReconnectAttempts (this (fresh_world False ''https:'')) = 6
   \<and> retries exhausted - retries (fresh_world False ''https:'') \<le> 6
   \<and> retries exhausted = 6
   \<and> reconnectAttempts (this exhausted) = maxReconnectAttempts (this exhausted)
   \<and> timeouts (window exhausted) = []
   \<and> since exhausted (onclose 1006 exhausted) = [ConnectionCallback 3 False]
   \<and> socket (this (onclose 1006 exhausted)) = None
   \<and> retries (run example_platform exhausted [Close_event 6 1006, Close_event 6 1006]) = 6
   \<and> retries (run example_platform exhausted
                [Close_event 6 1006, Timeout_fired 6, Error_event 6, Message_event 6 ''x'']) = 6
   \<and> connection_attempts
        (run example_platform exhausted
           [Close_event 6 1006, Timeout_fired 6, Error_event 6, Message_event 6 ''x''])
       = connection_attempts exhausted"
  using reconnect_attempts_capped
          [of "fresh_world False ''https:''" example_platform
              "[Call_listenToTransfer ''t1'' ''s1'' (Some 1) (Some 2) (Some 3),
                Close_event 0 1006, Timeout_fired 1, Close_event 1 1006, Timeout_fired 2,
                Close_event 2 1006, Timeout_fired 3, Close_event 3 1006, Timeout_fired 4,
                Close_event 4 1006, Timeout_fired 5, Close_event 5 1006, Timeout_fired 6]"
              1006, folded exhausted_def]
        reconnect_attempts_capped
          [of exhausted example_platform "[Close_event 6 1006, Close_event 6 1006]" 1006]
        reconnect_attempts_capped
          [of exhausted example_platform
              "[Close_event 6 1006, Timeout_fired 6, Error_event 6, Message_event 6 ''x'']" 1006]
  by (simp add: exhausted_eval retries_def connection_calls_def fresh_world_def
        ZenobiaClient_new_def)

text \<open>
  C2. Every reconnect attempt first increments the attempt counter; with \<open>k\<close> the
  counter after the increment (so \<open>k \<ge> 1\<close>), the one timer it schedules has the delay
  \<open>min (1000 * 2 ^ (k - 1)) capDelay\<close> milliseconds: with cap 30000 in the reference
  variant, with cap 5000 in the second variant.
\<close>

theorem retry_delay_capped_exponential:
  "reconnectAttempts (this (attemptReconnect_capped capDelay w)) = reconnectAttempts (this w) + 1
   \<and> filter is_retry (since w (attemptReconnect_capped capDelay w)) =
       [setTimeout_call (Suc (timer_count (window w)))
          (min (1000 * 2 ^ (reconnectAttempts (this (attemptReconnect_capped capDelay w)) - 1))
               capDelay)]
   \<and> reconnectAttempts (this (attemptReconnect w)) = reconnectAttempts (this w) + 1
   \<and> filter is_retry (since w (attemptReconnect w)) =
       [setTimeout_call (Suc (timer_count (window w)))
          (min (1000 * 2 ^ (reconnectAttempts (this (attemptReconnect w)) - 1)) 30000)]
   \<and> reconnectAttempts (this (attemptReconnect_variant2 w)) = reconnectAttempts (this w) + 1
   \<and> filter is_retry (since w (attemptReconnect_variant2 w)) =
       [setTimeout_call (Suc (timer_count (window w)))
          (min (1000 * 2 ^ (reconnectAttempts (this (attemptReconnect_variant2 w)) - 1)) 5000)]"
  by (simp add: attemptReconnect_capped_simps since_def reconnectDelay_def
        attemptReconnect_def attemptReconnect_variant2_def split: option.splits)

theorem retry_delay_capped_exponential_witness:
  "reconnectAttempts (this (attemptReconnect exhausted)) = 7
   \<and> filter is_retry (since exhausted (attemptReconnect exhausted)) = [setTimeout_call 7 30000]
   \<and> filter is_retry (since listening (attemptReconnect listening)) = [setTimeout_call 1 1000]
   \<and> filter is_retry (since exhausted (attemptReconnect_variant2 exhausted)) = [setTimeout_call 7 5000]"
  using retry_delay_capped_exponential [of 30000 exhausted]
        retry_delay_capped_exponential [of 30000 listening]
  by (simp add: exhausted_eval listening_eval)

text \<open>
  C3. A close event with code 1000 schedules no retry, whatever the attempt counter is:
  the handler calls the connection observer with \<open>false\<close>, forgets the socket, and leaves
  the counter, the timers and the browser as they are.
\<close>

theorem normal_closure_never_reconnects:
  "retries (onclose 1000 w) = retries w
   \<and> connection_attempts (onclose 1000 w) = connection_attempts w
   \<and> since w (onclose 1000 w) = connection_calls (this w) False
   \<and> window (onclose 1000 w) = window w
   \<and> this (onclose 1000 w) = (this w)\<lparr>socket := None\<rparr>
   \<and> retries (step P w (Close_event s 1000)) = retries w
   \<and> connection_attempts (step P w (Close_event s 1000)) = connection_attempts w
   \<and> timeouts (window (step P w (Close_event s 1000))) = timeouts (window w)
   \<and> reconnectAttempts (this (step P w (Close_event s 1000))) = reconnectAttempts (this w)"
  by (simp add: onclose_simps onclose_at_cap retries_def connection_attempts_def since_def)

theorem normal_closure_never_reconnects_witness:
  "retries (step example_platform listening (Close_event 0 1000)) = 0
   \<and> since listening (step example_platform listening (Close_event 0 1000)) = [ConnectionCallback 3 False]
   \<and> timeouts (window (step example_platform listening (Close_event 0 1000))) = []"
  using normal_closure_never_reconnects [of listening example_platform 0]
  by (simp add: listening_eval retries_def since_def connection_calls_def onclose_simps)

text \<open>
  C8. The open handler sets the attempt counter to 0 and calls the connection observer,
  when one is registered, with \<open>true\<close>, once and with nothing else; so does every open
  event the browser delivers.
\<close>

theorem open_resets_attempts_and_notifies:
  "reconnectAttempts (this (onopen w)) = 0
   \<and> since w (onopen w) = connection_calls (this w) True
   \<and> (s < socket_count (window w) \<and> readyState (window w) s = 0 \<longrightarrow>
        reconnectAttempts (this (step P w (Open_event s))) = 0
        \<and> since w (step P w (Open_event s)) = connection_calls (this w) True)"
  by (simp add: onopen_simps since_def)

theorem open_resets_attempts_and_notifies_witness:
  "reconnectAttempts (this exhausted) = 6
   \<and> 6 < socket_count (window exhausted) \<and> readyState (window exhausted) 6 = 0
   \<and> reconnectAttempts (this (step example_platform exhausted (Open_event 6))) = 0
   \<and> since exhausted (step example_platform exhausted (Open_event 6)) = [ConnectionCallback 3 True]"
  using open_resets_attempts_and_notifies [of exhausted 6 example_platform]
  by (simp add: exhausted_eval connection_calls_def)

text \<open>
  C10. \<open>listenToTransfer\<close> always stores the transfer id and the signature it is given,
  and leaves the registered observer of a kind as it is when the argument of that kind
  is omitted.
\<close>

theorem listenToTransfer_keeps_omitted_observers:
  "transferId (this (listenToTransfer P tid sig onStatus onError onConnection w)) = Some tid
   \<and> signature (this (listenToTransfer P tid sig onStatus onError onConnection w)) = Some sig
   \<and> (onStatus = None \<longrightarrow>
        onStatusCallback (this (listenToTransfer P tid sig onStatus onError onConnection w))
          = onStatusCallback (this w))
   \<and> (onError = None \<longrightarrow>
        onErrorCallback (this (listenToTransfer P tid sig onStatus onError onConnection w))
          = onErrorCallback (this w))
   \<and> (onConnection = None \<longrightarrow>
        onConnectionCallback (this (listenToTransfer P tid sig onStatus onError onConnection w))
          = onConnectionCallback (this w))"
  by (simp add: listenToTransfer_def Let_def connectWebSocket_this split: option.splits)

theorem listenToTransfer_keeps_omitted_observers_witness:
  "transferId (this (listenToTransfer example_platform ''t2'' ''s2'' None None None listening)) = Some ''t2''
   \<and> signature (this (listenToTransfer example_platform ''t2'' ''s2'' None None None listening)) = Some ''s2''
   \<and> onStatusCallback (this (listenToTransfer example_platform ''t2'' ''s2'' None None None listening)) = Some 1
   \<and> onErrorCallback (this (listenToTransfer example_platform ''t2'' ''s2'' None None None listening)) = Some 2
   \<and> onConnectionCallback (this (listenToTransfer example_platform ''t2'' ''s2'' None None None listening)) = Some 3"
  using listenToTransfer_keeps_omitted_observers [of example_platform "''t2''" "''s2''" None None None listening]
  by (simp add: listening_eval)




text \<open>
  C5, as the code has it. With the transfer id or the signature absent (\<open>null\<close> or
  empty), \<open>connectWebSocket\<close> makes no connection attempt; after closing the socket it
  had, if any, it writes one error line to the console and calls no error observer.
\<close>

theorem missing_credentials_console_only:
  "\<not> truthy_string (transferId (this w)) \<or> \<not> truthy_string (signature (this w)) \<longrightarrow>
     connection_attempts (connectWebSocket P w) = connection_attempts w
     \<and> socket (this (connectWebSocket P w)) = None
     \<and> since w (connectWebSocket P w) =
         (case socket (this w) of
            Some s \<Rightarrow> WebSocket_close s None # connection_calls (this w) False
          | None \<Rightarrow> [])
         @ [console_error Missing_credentials]
     \<and> (\<forall>cb v. ErrorCallback cb v \<notin> set (since w (connectWebSocket P w)))"
  by (auto simp add: connectWebSocket_attempts connectWebSocket_this connectWebSocket_trace
        has_credentials_def since_def connection_calls_def split: option.splits)

theorem missing_credentials_console_only_witness:
  "transferId (this disconnected) = None
   \<and> onErrorCallback (this disconnected) = Some 2
   \<and> connection_attempts (connectWebSocket example_platform disconnected)
       = connection_attempts disconnected
   \<and> since disconnected (connectWebSocket example_platform disconnected)
       = [console_error Missing_credentials]"
  using missing_credentials_console_only [of disconnected example_platform]
  by (simp add: disconnected_eval)

text \<open>
  The claim as it is written fails: with an error observer registered and the
  credentials cleared, \<open>connectWebSocket\<close> calls no observer at all.
\<close>

theorem missing_credentials_counterexample:
  "transferId (this disconnected) = None
   \<and> onErrorCallback (this disconnected) = Some 2
   \<and> filter is_observer_call (since disconnected (connectWebSocket example_platform disconnected)) = []"
  by (simp add: disconnected_eval connectWebSocket_trace has_credentials_def since_def)

text \<open>
  C6, as the code has it. A frame that \<open>JSON.parse\<close> rejects, or that parses to
  \<open>null\<close>, reaches the error observer once, with \<open>Failed to parse message\<close>. A frame
  that parses to anything else and matches none of the three branches (its type is none
  of \<open>status\<close>, \<open>error\<close>, \<open>ping\<close>, or the \<open>transfer\<close> or \<open>message\<close> it needs is
  missing or falsy) is dropped: nothing but the console line happens. No frame changes
  the client or the browser, so the connection stays open.
\<close>

theorem parse_failure_reported_others_ignored:
  "(JSON_parse P d = None \<or> JSON_parse P d = Some JNull \<longrightarrow>
      since w (onmessage P s d w) =
        console_log (Message_received (transferId (this w)) d)
          # error_calls (this w) (JString ''Failed to parse message''))
   \<and> (JSON_parse P d = Some data \<and> data \<noteq> JNull
        \<and> \<not> (property data ''type'' = Some (JString ''status'')
              \<and> truthy (property data ''transfer''))
        \<and> \<not> (property data ''type'' = Some (JString ''error'')
              \<and> truthy (property data ''message''))
        \<and> property data ''type'' \<noteq> Some (JString ''ping'') \<longrightarrow>
      since w (onmessage P s d w) = [console_log (Message_received (transferId (this w)) d)])
   \<and> this (onmessage P s d w) = this w
   \<and> window (onmessage P s d w) = window w"
  using onmessage_parse_failure [of P d s w] onmessage_ignored [of P d data s w]
  by (simp add: since_def onmessage_simps)

theorem parse_failure_reported_others_ignored_witness:
  \<open>JSON_parse example_platform ''not-json'' = None
   \<and> since listening (onmessage example_platform 0 ''not-json'' listening) =
       [console_log (Message_received (Some ''t1'') ''not-json''),
        ErrorCallback 2 (JString ''Failed to parse message'')]
   \<and> JSON_parse example_platform ''{"type":"status"}'' = Some (JObject [(''type'', JString ''status'')])
   \<and> since listening (onmessage example_platform 0 ''{"type":"status"}'' listening) =
       [console_log (Message_received (Some ''t1'') ''{"type":"status"}'')]
   \<and> socket (this (onmessage example_platform 0 ''not-json'' listening)) = Some 0
   \<and> readyState (window (onmessage example_platform 0 ''not-json'' listening)) 0 = 1\<close>
  using parse_failure_reported_others_ignored
          [of example_platform \<open>''not-json''\<close> listening 0 JNull]
        parse_failure_reported_others_ignored
          [of example_platform \<open>''{"type":"status"}''\<close> listening 0
              \<open>JObject [(''type'', JString ''status'')]\<close>]
  by (simp add: listening_eval example_platform_def error_calls_def)

text \<open>
  The claim as it is written fails: a frame of an unknown type calls no observer.
\<close>

theorem unrecognized_frame_counterexample:
  \<open>JSON_parse example_platform ''{"type":"foo"}'' = Some (JObject [(''type'', JString ''foo'')])
   \<and> onErrorCallback (this listening) = Some 2
   \<and> since listening (onmessage example_platform 0 ''{"type":"foo"}'' listening) =
       [console_log (Message_received (Some ''t1'') ''{"type":"foo"}'')]
   \<and> filter is_observer_call
         (since listening (onmessage example_platform 0 ''{"type":"foo"}'' listening)) = []\<close>
  by (simp add: onmessage_ignored [of _ _ \<open>JObject [(''type'', JString ''foo'')]\<close>]
        since_def listening_eval example_platform_def)

text \<open>
  C7. A frame whose parsed value has the type \<open>ping\<close>, received on a socket that is
  open, makes the handler send the one frame \<open>{"type":"pong"}\<close> on that socket and call
  no observer; client and browser stay as they are.
\<close>

theorem ping_answered_with_one_pong:
  \<open>JSON_parse P d = Some data \<and> property data ''type'' = Some (JString ''ping'')
     \<and> readyState (window w) s = 1 \<longrightarrow>
   since w (onmessage P s d w) =
     [console_log (Message_received (transferId (this w)) d),
      WebSocket_send s ''{"type":"pong"}'']
   \<and> filter is_observer_call (since w (onmessage P s d w)) = []
   \<and> this (onmessage P s d w) = this w
   \<and> window (onmessage P s d w) = window w
   \<and> (s < socket_count (window w) \<longrightarrow>
        since w (step P w (Message_event s d)) =
          [console_log (Message_received (transferId (this w)) d),
           WebSocket_send s ''{"type":"pong"}''])\<close>
  using onmessage_ping [of P d data w s]
  by (simp add: since_def pong_def onmessage_simps)

theorem ping_answered_with_one_pong_witness:
  \<open>JSON_parse example_platform ''{"type":"ping"}'' = Some (JObject [(''type'', JString ''ping'')])
   \<and> readyState (window listening) 0 = 1
   \<and> since listening (step example_platform listening (Message_event 0 ''{"type":"ping"}'')) =
       [console_log (Message_received (Some ''t1'') ''{"type":"ping"}''),
        WebSocket_send 0 ''{"type":"pong"}'']\<close>
  using ping_answered_with_one_pong
          [of example_platform \<open>''{"type":"ping"}''\<close> \<open>JObject [(''type'', JString ''ping'')]\<close>
              listening 0]
  by (simp add: listening_eval example_platform_def)

text \<open>
  C9. With a non-empty transfer id and signature, \<open>listenToTransfer\<close> (and every later
  \<open>connectWebSocket\<close> on the stored credentials) constructs exactly one socket, on the
  url \<open>scheme//host/transfers/id/ws?token=signature\<close>, where the scheme is \<open>wss:\<close> when
  the page's protocol is \<open>https:\<close> and \<open>ws:\<close> otherwise, and the host is the one the
  constructor chose.
\<close>

theorem stream_endpoint:
  "(tid \<noteq> [] \<and> sig \<noteq> [] \<longrightarrow>
      filter is_connection_attempt
        (since w (listenToTransfer P tid sig onStatus onError onConnection w)) =
        [WebSocket_new
           ((if location_protocol (window w) = ''https:'' then ''wss:'' else ''ws:'')
            @ ''//'' @ wsBaseUrl (this w) @ ''/transfers/'' @ tid @ ''/ws?token='' @ sig)])
   \<and> (transferId (this w) = Some tid \<and> signature (this w) = Some sig
        \<and> tid \<noteq> [] \<and> sig \<noteq> [] \<longrightarrow>
      filter is_connection_attempt (since w (connectWebSocket P w)) =
        [WebSocket_new
           ((if location_protocol (window w) = ''https:'' then ''wss:'' else ''ws:'')
            @ ''//'' @ wsBaseUrl (this w) @ ''/transfers/'' @ tid @ ''/ws?token='' @ sig)])
   \<and> wsBaseUrl (ZenobiaClient_new isTest) =
       (if isTest then ''transfer-status-test.zenobiapay.com''
        else ''transfer-status.zenobiapay.com'')"
  using connectWebSocket_endpoint [of w tid sig P]
        listenToTransfer_endpoint [of tid sig w P onStatus onError onConnection]
  by (simp add: ZenobiaClient_new_def)

theorem stream_endpoint_witness:
  "filter is_connection_attempt
     (since (fresh_world False ''https:'')
        (listenToTransfer example_platform ''t1'' ''s1'' None None None (fresh_world False ''https:'')))
     = [WebSocket_new ''wss://transfer-status.zenobiapay.com/transfers/t1/ws?token=s1'']
   \<and> filter is_connection_attempt
     (since (fresh_world True ''http:'')
        (listenToTransfer example_platform ''t1'' ''s1'' None None None (fresh_world True ''http:'')))
     = [WebSocket_new ''ws://transfer-status-test.zenobiapay.com/transfers/t1/ws?token=s1'']
   \<and> transferId (this listening) = Some ''t1'' \<and> signature (this listening) = Some ''s1''
   \<and> filter is_connection_attempt (since listening (connectWebSocket example_platform listening))
     = [WebSocket_new ''wss://transfer-status.zenobiapay.com/transfers/t1/ws?token=s1'']"
  using stream_endpoint [of "''t1''" "''s1''" "fresh_world False ''https:''" example_platform None None None False]
        stream_endpoint [of "''t1''" "''s1''" "fresh_world True ''http:''" example_platform None None None True]
        stream_endpoint [of "''t1''" "''s1''" listening example_platform None None None False]
  by (simp add: listening_eval fresh_world_def ZenobiaClient_new_def)

end
